theory Spec2Isabelle
  imports Complex_Main "HOL-Library.Char_ord" "HOL-Library.List_Lexorder"
begin

section \<open>Data model\<close>

text \<open>
  The catalog collaborator (the \<open>alpaca\<close> package) supplies the asset enumerations and
  the asset descriptor; only the fields that the validation code of
  \<open>src/neural/data/alpaca.py\<close> and \<open>src/neural/client/alpaca.py\<close> reads are kept.
\<close>

datatype AssetClass = US_EQUITY | CRYPTO

datatype AssetStatus = ACTIVE | INACTIVE

record asset =
  asset_class :: AssetClass
  tradable :: bool
  status :: AssetStatus
  fractionable :: bool
  easy_to_borrow :: bool

text \<open>A symbol dictionary: \<open>{asset.symbol: asset for asset in assets}\<close>.\<close>

type_synonym catalog = "string \<rightharpoonup> asset"

text \<open>
  The client object, as the validators read it: the property \<open>symbols\<close>, which returns the
  dictionary built from the assets, and the attribute \<open>_AlpacaClient__symbols\<close>, which the
  validators read by that literal name; \<open>None\<close> stands for an object that has no such
  attribute, so that reading it raises \<open>AttributeError\<close>.
\<close>

record client =
  symbols_property :: catalog
  AlpacaClient__symbols :: "catalog option"

text \<open>
  An instance of the class \<open>AlpacaClient\<close> of \<open>src/neural/client/alpaca.py\<close>:
  \<open>__init__\<close> sets \<open>_symbols\<close>, the property \<open>symbols\<close> fills it, and nothing in the class
  writes an attribute named \<open>__symbols\<close>, so the object has no \<open>_AlpacaClient__symbols\<close>.
\<close>

definition AlpacaClient :: "catalog \<Rightarrow> client" where
  "AlpacaClient assets = \<lparr>symbols_property = assets, AlpacaClient__symbols = None\<rparr>"

text \<open>
  Every failure of the source is a Python exception. The source raises \<open>ValueError\<close>
  with a distinguishing message; the constructors below name the messages after the
  error names of the specification. \<open>KeyError\<close> and \<open>AttributeError\<close> are the
  interpreter's own exceptions (a missing dictionary key, an attribute read on \<open>None\<close>).
\<close>

datatype error =
    EmptyInputError
  | DuplicateSymbolError "string set"
  | UnknownSymbolError string
  | NotTradableError string
  | InactiveSymbolError string
  | MixedAssetClassError
  | KeyError string
  | AttributeError
  | InvalidPathError
  | InvalidResolutionError
  | EmptyScheduleError
  | NoDataError int int
  | MissingSymbolDataError "string set"
  | ReindexError
  | IncompatibleAppendError

datatype warning = NotFractionable string | NotEasyToBorrow string

section \<open>Symbol validation\<close>

text \<open>
  \<open>[symbol for symbol in set(symbols) if symbols.count(symbol) > 1]\<close>; the iteration
  order of a Python set is unspecified, so callers only use the set of the result.
\<close>

definition duplicate_symbols :: "string list \<Rightarrow> string list" where
  "duplicate_symbols symbols = filter (\<lambda>s. count_list symbols s > 1) (remdups symbols)"

text \<open>The checks of one loop iteration once the descriptor has been looked up.\<close>

definition check_symbol_data :: "string \<Rightarrow> asset \<Rightarrow> error + warning list" where
  "check_symbol_data s a =
     (if \<not> tradable a then Inl (NotTradableError s)
      else if status a \<noteq> ACTIVE then Inl (InactiveSymbolError s)
      else Inr ((if \<not> fractionable a then [NotFractionable s] else []) @
                (if \<not> easy_to_borrow a then [NotEasyToBorrow s] else [])))"

text \<open>
  The \<open>for symbol in symbols\<close> loop of \<open>AlpacaDataFetcher._validate_symbols\<close>: every
  iteration reads \<open>self.client._AlpacaClient__symbols\<close> and looks the symbol up with
  \<open>dict.get\<close>, so an absent symbol gives \<open>None\<close> and the "not a known symbol" error. The
  result is the warnings logged so far and the exception raised, if any.
\<close>

fun fetcher_symbol_loop :: "client \<Rightarrow> string list \<Rightarrow> warning list \<times> error option" where
  "fetcher_symbol_loop c [] = ([], None)"
| "fetcher_symbol_loop c (s # ss) =
     (case AlpacaClient__symbols c of
        None \<Rightarrow> ([], Some AttributeError)
      | Some cat \<Rightarrow>
          (case cat s of
             None \<Rightarrow> ([], Some (UnknownSymbolError s))
           | Some a \<Rightarrow>
               (case check_symbol_data s a of
                  Inl e \<Rightarrow> ([], Some e)
                | Inr ws \<Rightarrow>
                    (case fetcher_symbol_loop c ss of (ws', r) \<Rightarrow> (ws @ ws', r)))))"

text \<open>
  The same loop in \<open>AlpacaDataClient._validate_symbols\<close>: the descriptor is read with
  a subscript (\<open>self.client.symbols[symbol]\<close>), which raises \<open>KeyError\<close> on an absent
  key; the dictionary holds descriptors only, so the \<open>is None\<close> test that follows never
  fires.
\<close>

fun client_symbol_loop :: "client \<Rightarrow> string list \<Rightarrow> warning list \<times> error option" where
  "client_symbol_loop c [] = ([], None)"
| "client_symbol_loop c (s # ss) =
     (case symbols_property c s of
        None \<Rightarrow> ([], Some (KeyError s))
      | Some a \<Rightarrow>
          (case check_symbol_data s a of
             Inl e \<Rightarrow> ([], Some e)
           | Inr ws \<Rightarrow>
               (case client_symbol_loop c ss of (ws', r) \<Rightarrow> (ws @ ws', r))))"

text \<open>
  \<open>set(self.client._AlpacaClient__symbols.get(symbol).asset_class for symbol in symbols)\<close>,
  in both validators, as the list of the classes met; reading the attribute of an object
  that has none, and reading \<open>.asset_class\<close> of \<open>None\<close>, raise \<open>AttributeError\<close>.
\<close>

fun asset_classes_of :: "client \<Rightarrow> string list \<Rightarrow> error + AssetClass list" where
  "asset_classes_of c [] = Inr []"
| "asset_classes_of c (s # ss) =
     (case AlpacaClient__symbols c of
        None \<Rightarrow> Inl AttributeError
      | Some cat \<Rightarrow>
          (case cat s of
             None \<Rightarrow> Inl AttributeError
           | Some a \<Rightarrow>
               (case asset_classes_of c ss of
                  Inl e \<Rightarrow> Inl e
                | Inr cs \<Rightarrow> Inr (asset_class a # cs))))"

text \<open>
  \<open>if len(asset_classes) != 1: raise ...\<close> and \<open>asset_classes.pop()\<close> on the set of
  classes.
\<close>

definition common_asset_class :: "client \<Rightarrow> string list \<Rightarrow> error + AssetClass" where
  "common_asset_class c symbols =
     (case asset_classes_of c symbols of
        Inl e \<Rightarrow> Inl e
      | Inr cs \<Rightarrow> (case remdups cs of [c] \<Rightarrow> Inr c | _ \<Rightarrow> Inl MixedAssetClassError))"

text \<open>\<open>AlpacaDataFetcher._validate_symbols\<close> (\<open>src/neural/data/alpaca.py\<close>).\<close>

definition validate_symbols :: "client \<Rightarrow> string list \<Rightarrow> warning list \<times> (error + AssetClass)" where
  "validate_symbols c symbols =
     (if length symbols = 0 then ([], Inl EmptyInputError)
      else if duplicate_symbols symbols \<noteq> []
        then ([], Inl (DuplicateSymbolError (set (duplicate_symbols symbols))))
      else (case fetcher_symbol_loop c symbols of
              (ws, Some e) \<Rightarrow> (ws, Inl e)
            | (ws, None) \<Rightarrow> (ws, common_asset_class c symbols)))"

text \<open>\<open>AlpacaDataClient._validate_symbols\<close> (\<open>src/neural/client/alpaca.py\<close>).\<close>

definition client_validate_symbols :: "client \<Rightarrow> string list \<Rightarrow> warning list \<times> (error + AssetClass)" where
  "client_validate_symbols c symbols =
     (if length symbols = 0 then ([], Inl EmptyInputError)
      else if duplicate_symbols symbols \<noteq> []
        then ([], Inl (DuplicateSymbolError (set (duplicate_symbols symbols))))
      else (case client_symbol_loop c symbols of
              (ws, Some e) \<Rightarrow> (ws, Inl e)
            | (ws, None) \<Rightarrow> (ws, common_asset_class c symbols)))"

text \<open>A symbol passes the loop when it is known, tradable and active.\<close>

definition passes :: "catalog \<Rightarrow> string \<Rightarrow> bool" where
  "passes cat s = (case cat s of None \<Rightarrow> False | Some a \<Rightarrow> tradable a \<and> status a = ACTIVE)"

definition class_of :: "catalog \<Rightarrow> string \<Rightarrow> AssetClass option" where
  "class_of cat s = map_option asset_class (cat s)"

text \<open>A small catalog for concrete evaluations.\<close>

definition equity_asset :: asset where
  "equity_asset = \<lparr>asset_class = US_EQUITY, tradable = True, status = ACTIVE,
     fractionable = True, easy_to_borrow = True\<rparr>"

definition crypto_asset :: asset where
  "crypto_asset = \<lparr>asset_class = CRYPTO, tradable = True, status = ACTIVE,
     fractionable = True, easy_to_borrow = False\<rparr>"

definition delisted_asset :: asset where
  "delisted_asset = \<lparr>asset_class = US_EQUITY, tradable = False, status = INACTIVE,
     fractionable = False, easy_to_borrow = False\<rparr>"

definition demo_catalog :: catalog where
  "demo_catalog = [''AAPL'' \<mapsto> equity_asset, ''MSFT'' \<mapsto> equity_asset,
     ''BTC/USD'' \<mapsto> crypto_asset, ''LEHMQ'' \<mapsto> delisted_asset]"

text \<open>
  A client object on which the attribute \<open>_AlpacaClient__symbols\<close> has been set to the
  symbol dictionary (no code of the sources does so).
\<close>

definition client_with_attribute :: "catalog \<Rightarrow> client" where
  "client_with_attribute assets =
     \<lparr>symbols_property = assets, AlpacaClient__symbols = Some assets\<rparr>"

section \<open>Resolution and sessions\<close>

text \<open>Instants are minutes since the epoch, in UTC; a session is \<open>(market_open, market_close)\<close>.\<close>

type_synonym timestamp = int

text \<open>\<open>AlpacaDataFetcher._validate_resolution\<close>.\<close>

definition accepted_resolutions :: "string list" where
  "accepted_resolutions = [''1Min'', ''5Min'', ''15Min'', ''30Min'']"

definition validate_resolution :: "string \<Rightarrow> error option" where
  "validate_resolution resolution =
     (if resolution \<notin> set accepted_resolutions then Some InvalidResolutionError else None)"

text \<open>
  Modelled from the spec: the conversion of a resolution string into a time step
  (\<open>to_timeframe\<close> of \<open>neural.tools.base\<close>) is not in the sources. The resolution is "the
  fixed time step of the alignment grid (e.g., 5 minutes)"; the step is in minutes, and a
  string that is not an accepted resolution has no step.
\<close>

definition resolution_minutes :: "string \<Rightarrow> nat" where
  "resolution_minutes resolution =
     (if resolution = ''1Min'' then 1
      else if resolution = ''5Min'' then 5
      else if resolution = ''15Min'' then 15
      else if resolution = ''30Min'' then 30
      else 0)"

section \<open>Raw data of one session\<close>

text \<open>
  The provider's answer is a table with the index \<open>(symbol, timestamp)\<close>; \<open>'v\<close> is the
  tuple of numeric features of one record. The list keeps the order in which the provider
  returned the rows.
\<close>

type_synonym 'v raw_dataset = "((string \<times> timestamp) \<times> 'v) list"

text \<open>\<open>raw_dataset.index.get_level_values('symbol').unique().tolist()\<close>.\<close>

definition dataset_symbols :: "'v raw_dataset \<Rightarrow> string list" where
  "dataset_symbols raw = remdups (map (\<lambda>r. fst (fst r)) raw)"

text \<open>\<open>set(dataset_symbols) ^ set(symbols)\<close>: the symmetric difference.\<close>

definition missing_symbols :: "'v raw_dataset \<Rightarrow> string list \<Rightarrow> string set" where
  "missing_symbols raw symbols =
     (set (dataset_symbols raw) - set symbols) \<union> (set symbols - set (dataset_symbols raw))"

text \<open>\<open>raw_dataset.index.levels[1]\<close>: the distinct timestamps of the table, ascending.\<close>

definition index_levels_1 :: "'v raw_dataset \<Rightarrow> timestamp list" where
  "index_levels_1 raw = sort (remdups (map (\<lambda>r. snd (fst r)) raw))"

text \<open>
  \<open>raw_dataset.reindex(index=pd.MultiIndex.from_product([symbols, levels[1]]))\<close>
  followed by \<open>reset_index(level=0, names='symbol')\<close>: one row per requested symbol and
  timestamp, in the order of \<open>symbols\<close>, holding the record found under that index or a
  missing value. pandas refuses to reindex a table whose index has a repeated label.
\<close>

definition reindex_product ::
  "string list \<Rightarrow> 'v raw_dataset \<Rightarrow> error + (string \<times> timestamp \<times> 'v option) list" where
  "reindex_product symbols raw =
     (if \<not> distinct (map fst raw) then Inl ReindexError
      else Inr (concat (map (\<lambda>s. map (\<lambda>t. (s, t, map_of raw (s, t))) (index_levels_1 raw)) symbols)))"

text \<open>
  \<open>raw_dataset.groupby('symbol')\<close>: pandas iterates over the groups in the sorted order
  of their keys (\<open>sort=True\<close> is the default); the rows of a group keep their order.
\<close>

definition groupby_symbol ::
  "(string \<times> timestamp \<times> 'v option) list \<Rightarrow> (string \<times> (timestamp \<times> 'v option) list) list" where
  "groupby_symbol rows =
     map (\<lambda>k. (k, map snd (filter (\<lambda>r. fst r = k) rows))) (sort (remdups (map fst rows)))"

section \<open>Session alignment\<close>

text \<open>
  Modelled from the spec: \<open>DataProcessor.reindex_and_forward_fill\<close> is not in the sources.
  "Build the canonical timestamp grid: open, open+resolution, ... up to (but excluding)
  close." The candidates \<open>open + k * resolution\<close> are enumerated for \<open>k\<close> below
  \<open>close - open\<close>, which is enough for a step of at least one minute.
\<close>

definition session_grid :: "timestamp \<Rightarrow> timestamp \<Rightarrow> nat \<Rightarrow> timestamp list" where
  "session_grid market_open market_close res =
     map (\<lambda>k. market_open + int k * int res)
       (filter (\<lambda>k. market_open + int k * int res < market_close) [0 ..< nat (market_close - market_open)])"

text \<open>
  Modelled from the spec: "For each symbol, reindex its raw records onto the grid". The
  value observed at a grid point is the record of the group at exactly that timestamp.
\<close>

definition observation :: "(timestamp \<times> 'v option) list \<Rightarrow> timestamp \<Rightarrow> 'v option" where
  "observation grp t = (case map_of grp t of None \<Rightarrow> None | Some x \<Rightarrow> x)"

text \<open>
  Modelled from the spec: "any grid point with no raw observation is filled with the most
  recent prior value for that symbol within the session. A grid point preceding the first
  observation of that symbol in the session is a genuine missing value". The first
  argument is the value carried forward.
\<close>

fun ffill :: "'v option \<Rightarrow> 'v option list \<Rightarrow> 'v option list" where
  "ffill carried [] = []"
| "ffill carried (None # xs) = carried # ffill carried xs"
| "ffill carried (Some v # xs) = Some v # ffill (Some v) xs"

text \<open>
  Modelled from the spec: \<open>DataProcessor.reindex_and_forward_fill\<close> is not in the sources.
  The records of the group are read at the grid points, then filled forward; nothing is
  carried into the session.
\<close>

definition reindex_and_forward_fill ::
  "(timestamp \<times> 'v option) list \<Rightarrow> timestamp \<Rightarrow> timestamp \<Rightarrow> nat \<Rightarrow> 'v option list" where
  "reindex_and_forward_fill grp market_open market_close res =
     ffill None (map (observation grp) (session_grid market_open market_close res))"

text \<open>
  Modelled from the spec: the update of the density statistic is not in the sources.
  "Updates DensityTracker with (observed_cells, total_cells) for the session": the observed
  cells of a group are its grid points that hold a raw observation.
\<close>

definition observed_cells_of :: "(timestamp \<times> 'v option) list \<Rightarrow> timestamp \<Rightarrow> timestamp \<Rightarrow> nat \<Rightarrow> nat" where
  "observed_cells_of grp market_open market_close res =
     length (filter (\<lambda>x. x \<noteq> None) (map (observation grp) (session_grid market_open market_close res)))"

text \<open>
  The aligned frame of a session: one block per group, in the order in which
  \<open>groupby\<close> yields the groups (\<open>pd.concat(processed_groups, axis=1)\<close>).
\<close>

type_synonym 'v frame = "(string \<times> 'v option list) list"

definition aligned_frame ::
  "(string \<times> timestamp \<times> 'v option) list \<Rightarrow> timestamp \<Rightarrow> timestamp \<Rightarrow> nat \<Rightarrow> 'v frame" where
  "aligned_frame rows market_open market_close res =
     map (\<lambda>(s, grp). (s, reindex_and_forward_fill grp market_open market_close res)) (groupby_symbol rows)"

text \<open>
  \<open>features_df.to_numpy()\<close>: row \<open>i\<close> holds cell \<open>i\<close> of every block, block after block.
  A cell is the feature tuple of one symbol at one grid point, so the columns counted here
  are the blocks.
\<close>

definition to_numpy :: "nat \<Rightarrow> 'v frame \<Rightarrow> 'v option list list" where
  "to_numpy n frame = map (\<lambda>i. map (\<lambda>b. snd b ! i) frame) [0 ..< n]"

section \<open>Density statistic\<close>

text \<open>
  Modelled from the spec: \<open>DataProcessor.running_dataset_density\<close> is not in the sources.
  "The fraction of all grid cells across all processed sessions that were genuinely
  observed", "recomputed over cumulative totals, not per-session average of averages":
  the tracker keeps the two cumulative counts.
\<close>

record density_tracker =
  observed_cells :: nat
  total_cells :: nat

text \<open>
  Modelled from the spec: the tracker's update is not in the sources; a session adds its
  observed and total cells to the cumulative counts.
\<close>

definition update_density :: "nat \<Rightarrow> nat \<Rightarrow> density_tracker \<Rightarrow> density_tracker" where
  "update_density n_observed n_total d =
     \<lparr>observed_cells = observed_cells d + n_observed, total_cells = total_cells d + n_total\<rparr>"

text \<open>
  Modelled from the spec: the statistic read by the progress bar is the quotient of the two
  cumulative counts (a division by zero is \<open>0\<close> in HOL; no session has been counted then).
\<close>

definition running_dataset_density :: "density_tracker \<Rightarrow> real" where
  "running_dataset_density d = real (observed_cells d) / real (total_cells d)"

definition empty_tracker :: density_tracker where
  "empty_tracker = \<lparr>observed_cells = 0, total_cells = 0\<rparr>"

section \<open>Dataset store\<close>

datatype DatasetType = BAR | QUOTE | TRADE

text \<open>\<open>DatasetMetadata\<close>, with the fields the pipeline fills in.\<close>

record 'c metadata =
  md_dataset_type :: "DatasetType list"
  md_column_schema :: 'c
  md_asset_class :: AssetClass
  md_symbols :: "string list"
  md_start :: timestamp
  md_end :: timestamp
  md_resolution :: string
  md_n_rows :: nat
  md_n_columns :: nat

record ('v, 'c) dataset =
  matrix :: "'v option list list"
  meta :: "'c metadata"

type_synonym ('v, 'c) store = "string \<rightharpoonup> ('v, 'c) dataset"

text \<open>
  Modelled from the spec: \<open>DatasetIO.write_to_hdf5\<close> is not in the sources. "If
  dataset_id exists, fails with IncompatibleAppendError unless the new chunk's column
  schema, resolution, asset class, and symbol list exactly match the stored metadata".
\<close>

definition compatible :: "'c metadata \<Rightarrow> 'c metadata \<Rightarrow> bool" where
  "compatible stored chunk \<longleftrightarrow>
     md_column_schema chunk = md_column_schema stored \<and>
     md_resolution chunk = md_resolution stored \<and>
     md_asset_class chunk = md_asset_class stored \<and>
     md_symbols chunk = md_symbols stored"

text \<open>
  Modelled from the spec: "If dataset_id does not yet exist, creates it [and] records the
  chunk's metadata as the dataset's metadata. [...] on success, extends the stored
  metadata's row count and end timestamp and appends the rows. [...] an append either
  fully commits (matrix rows + metadata update) or fails leaving the dataset in its
  pre-call state." The result is the error raised, if any, and the store after the call.
\<close>

definition write_to_hdf5 ::
  "('v, 'c) store \<Rightarrow> 'v option list list \<Rightarrow> 'c metadata \<Rightarrow> string \<Rightarrow> error option \<times> ('v, 'c) store" where
  "write_to_hdf5 st data_to_write md target_dataset_name =
     (case st target_dataset_name of
        None \<Rightarrow> (None, st(target_dataset_name \<mapsto> \<lparr>matrix = data_to_write, meta = md\<rparr>))
      | Some d \<Rightarrow>
          if \<not> compatible (meta d) md then (Some IncompatibleAppendError, st)
          else (None, st(target_dataset_name \<mapsto>
                  \<lparr>matrix = matrix d @ data_to_write,
                   meta = (meta d)\<lparr>md_n_rows := md_n_rows (meta d) + md_n_rows md,
                                    md_end := md_end md\<rparr>\<rparr>)))"

section \<open>Pipeline\<close>

text \<open>
  The collaborators of \<open>download_features_to_hdf5\<close>: \<open>validate_path\<close>, the client
  object \<open>self.client\<close>, \<open>Calendar(...).get_schedule\<close>, the
  provider call made by \<open>download_raw_dataset\<close> (\<open>None\<close> when reading \<open>data.df\<close> raises
  \<open>KeyError\<close>), and \<open>create_column_schema\<close>.
\<close>

record ('v, 'c) env =
  validate_path :: "string \<Rightarrow> bool"
  client :: client
  get_schedule :: "AssetClass \<Rightarrow> int \<Rightarrow> int \<Rightarrow> (timestamp \<times> timestamp) list"
  downloader :: "DatasetType \<Rightarrow> AssetClass \<Rightarrow> string list \<Rightarrow> string \<Rightarrow> timestamp \<Rightarrow> timestamp
                   \<Rightarrow> 'v raw_dataset option"
  create_column_schema :: "'v frame \<Rightarrow> 'c"

text \<open>What a run leaves behind: warnings logged, provider calls issued, chunks written.\<close>

datatype event = Warned warning | Fetched timestamp timestamp | Wrote string

record ('v, 'c) pipeline_state =
  store :: "('v, 'c) store"
  density :: density_tracker
  trace :: "event list"

text \<open>\<open>download_raw_dataset\<close>: the provider call, then \<open>data.df\<close>.\<close>

definition download_raw_dataset ::
  "('v, 'c) env \<Rightarrow> DatasetType \<Rightarrow> string list \<Rightarrow> AssetClass \<Rightarrow> string \<Rightarrow> timestamp \<Rightarrow> timestamp
     \<Rightarrow> error + 'v raw_dataset" where
  "download_raw_dataset e dataset_type symbols asset_cls resolution start_t end_t =
     (case downloader e dataset_type asset_cls symbols resolution start_t end_t of
        None \<Rightarrow> Inl (NoDataError start_t end_t)
      | Some df \<Rightarrow> Inr df)"

text \<open>
  The body of the \<open>for market_open, market_close in schedule.values\<close> loop. The result is
  the exception raised in this session, if any, and the state after it. The store is the
  content of the file at \<open>file_path\<close>; the density statistic is updated while the groups
  are aligned, before the chunk is written.
\<close>

definition process_session ::
  "('v, 'c) env \<Rightarrow> string \<Rightarrow> DatasetType \<Rightarrow> string list \<Rightarrow> AssetClass \<Rightarrow> string
     \<Rightarrow> ('v, 'c) pipeline_state \<Rightarrow> timestamp \<times> timestamp \<Rightarrow> error option \<times> ('v, 'c) pipeline_state" where
  "process_session e target_dataset_name dataset_type symbols asset_cls resolution st session =
     (let market_open = fst session; market_close = snd session;
          st1 = st\<lparr>trace := trace st @ [Fetched market_open market_close]\<rparr>
      in case download_raw_dataset e dataset_type symbols asset_cls resolution market_open market_close of
           Inl err \<Rightarrow> (Some err, st1)
         | Inr raw \<Rightarrow>
             if missing_symbols raw symbols \<noteq> {}
             then (Some (MissingSymbolDataError (missing_symbols raw symbols)), st1)
             else (case reindex_product symbols raw of
                     Inl err \<Rightarrow> (Some err, st1)
                   | Inr rows \<Rightarrow>
                       let res = resolution_minutes resolution;
                           groups = groupby_symbol rows;
                           n_grid = length (session_grid market_open market_close res);
                           features_df = aligned_frame rows market_open market_close res;
                           st2 = st1\<lparr>density :=
                                   fold (\<lambda>g. update_density
                                            (observed_cells_of (snd g) market_open market_close res) n_grid)
                                     groups (density st1)\<rparr>;
                           features_np = to_numpy n_grid features_df;
                           md = \<lparr>md_dataset_type = [dataset_type],
                                 md_column_schema = create_column_schema e features_df,
                                 md_asset_class = asset_cls,
                                 md_symbols = symbols,
                                 md_start = market_open,
                                 md_end = market_close,
                                 md_resolution = resolution,
                                 md_n_rows = n_grid,
                                 md_n_columns = length features_df\<rparr>
                       in (case write_to_hdf5 (store st2) features_np md target_dataset_name of
                             (Some err, store') \<Rightarrow> (Some err, st2\<lparr>store := store'\<rparr>)
                           | (None, store') \<Rightarrow>
                               (None, st2\<lparr>store := store',
                                          trace := trace st2 @ [Wrote target_dataset_name]\<rparr>))))"

fun session_loop ::
  "('v, 'c) env \<Rightarrow> string \<Rightarrow> DatasetType \<Rightarrow> string list \<Rightarrow> AssetClass \<Rightarrow> string
     \<Rightarrow> ('v, 'c) pipeline_state \<Rightarrow> (timestamp \<times> timestamp) list \<Rightarrow> error option \<times> ('v, 'c) pipeline_state" where
  "session_loop e target dataset_type symbols asset_cls resolution st [] = (None, st)"
| "session_loop e target dataset_type symbols asset_cls resolution st (session # rest) =
     (case process_session e target dataset_type symbols asset_cls resolution st session of
        (Some err, st') \<Rightarrow> (Some err, st')
      | (None, st') \<Rightarrow> session_loop e target dataset_type symbols asset_cls resolution st' rest)"

text \<open>
  \<open>AlpacaDataFetcher.download_features_to_hdf5\<close>. The value returned on completion has
  the declared type \<open>DatasetMetadata\<close>; Python's \<open>None\<close> is \<open>None\<close> here.
\<close>

definition download_features_to_hdf5 ::
  "('v, 'c) env \<Rightarrow> ('v, 'c) pipeline_state \<Rightarrow> string \<Rightarrow> string \<Rightarrow> DatasetType \<Rightarrow> string list \<Rightarrow> string
     \<Rightarrow> int \<Rightarrow> int \<Rightarrow> (error + 'c metadata option) \<times> ('v, 'c) pipeline_state" where
  "download_features_to_hdf5 e st file_path target_dataset_name dataset_type symbols resolution
       start_date end_date =
     (if \<not> validate_path e file_path then (Inl InvalidPathError, st)
      else case validate_symbols (client e) symbols of
        (ws, r) \<Rightarrow>
          let st0 = st\<lparr>trace := trace st @ map Warned ws\<rparr> in
          (case r of
             Inl err \<Rightarrow> (Inl err, st0)
           | Inr asset_cls \<Rightarrow>
               (case validate_resolution resolution of
                  Some err \<Rightarrow> (Inl err, st0)
                | None \<Rightarrow>
                    let schedule = get_schedule e asset_cls start_date end_date in
                    if length schedule = 0 then (Inl EmptyScheduleError, st0)
                    else (case session_loop e target_dataset_name dataset_type symbols asset_cls
                                 resolution st0 schedule of
                            (Some err, st') \<Rightarrow> (Inl err, st')
                          | (None, st') \<Rightarrow> (Inr None, st')))))"

text \<open>The input-validation failures, and the provider calls recorded in a trace.\<close>

fun is_validation_error :: "error \<Rightarrow> bool" where
  "is_validation_error EmptyInputError = True"
| "is_validation_error (DuplicateSymbolError _) = True"
| "is_validation_error (UnknownSymbolError _) = True"
| "is_validation_error (NotTradableError _) = True"
| "is_validation_error (InactiveSymbolError _) = True"
| "is_validation_error MixedAssetClassError = True"
| "is_validation_error InvalidResolutionError = True"
| "is_validation_error EmptyScheduleError = True"
| "is_validation_error _ = False"

fun is_fetch :: "event \<Rightarrow> bool" where
  "is_fetch (Fetched _ _) = True"
| "is_fetch _ = False"

fun is_write :: "event \<Rightarrow> bool" where
  "is_write (Wrote _) = True"
| "is_write _ = False"

section \<open>A concrete run\<close>

text \<open>
  A provider that answers every request with the same three records of two symbols, a
  one-session calendar for equities, a client object carrying the attribute that the
  validator reads, and an empty store; used for concrete evaluations.
\<close>

definition demo_raw :: "int raw_dataset" where
  "demo_raw = [((''MSFT'', 0), 10), ((''AAPL'', 1), 20), ((''MSFT'', 2), 11)]"

definition demo_env :: "(int, string list) env" where
  "demo_env =
     \<lparr>validate_path = (\<lambda>p. p \<noteq> []),
      client = client_with_attribute demo_catalog,
      get_schedule = (\<lambda>c s e. if c = US_EQUITY \<and> s \<le> e then [(0, 3)] else []),
      downloader = (\<lambda>dt c syms r s e. Some demo_raw),
      create_column_schema = map fst\<rparr>"

definition empty_state :: "(int, string list) pipeline_state" where
  "empty_state = \<lparr>store = Map.empty, density = empty_tracker, trace = []\<rparr>"

section \<open>Properties of symbol validation\<close>

lemma count_list_distinct: "distinct xs \<Longrightarrow> count_list xs x \<le> Suc 0"
  by (induction xs) auto

lemma duplicate_symbols_distinct: "distinct symbols \<Longrightarrow> duplicate_symbols symbols = []"
  by (simp add: duplicate_symbols_def filter_empty_conv not_less count_list_distinct)

text \<open>
  On an instance of the shipped class the first iteration of the loop of
  \<open>AlpacaDataFetcher._validate_symbols\<close> already fails: the attribute it reads does not exist.
\<close>

lemma fetcher_loop_without_attribute:
  "symbols \<noteq> [] \<Longrightarrow> fetcher_symbol_loop (AlpacaClient assets) symbols = ([], Some AttributeError)"
  by (cases symbols) (simp_all add: AlpacaClient_def)

lemma validate_symbols_without_attribute:
  "symbols \<noteq> [] \<Longrightarrow> distinct symbols \<Longrightarrow>
   validate_symbols (AlpacaClient assets) symbols = ([], Inl AttributeError)"
  by (simp add: validate_symbols_def duplicate_symbols_distinct fetcher_loop_without_attribute)

lemma asset_classes_without_attribute:
  "symbols \<noteq> [] \<Longrightarrow> asset_classes_of (AlpacaClient assets) symbols = Inl AttributeError"
  by (cases symbols) (simp_all add: AlpacaClient_def)

text \<open>
  The loop of \<open>AlpacaDataClient._validate_symbols\<close> reads the property, so it runs on the
  shipped class; the asset-class step that follows reads the missing attribute.
\<close>

lemma client_loop_passes:
  "\<forall>s\<in>set ss. passes (symbols_property c) s \<Longrightarrow> snd (client_symbol_loop c ss) = None"
  by (induction ss) (auto simp: passes_def check_symbol_data_def split: option.splits prod.splits)

lemma client_validate_symbols_without_attribute:
  assumes "symbols \<noteq> []" "distinct symbols" "\<forall>s\<in>set symbols. passes assets s"
  shows "snd (client_validate_symbols (AlpacaClient assets) symbols) = Inl AttributeError"
proof -
  have "snd (client_symbol_loop (AlpacaClient assets) symbols) = None"
    using assms(3) by (intro client_loop_passes) (simp add: AlpacaClient_def)
  then show ?thesis
    using assms(1,2) asset_classes_without_attribute [OF assms(1), of assets]
    by (auto simp: client_validate_symbols_def duplicate_symbols_distinct common_asset_class_def
        split: prod.splits option.splits)
qed

lemma client_loop_first_failure:
  "\<forall>p\<in>set pre. passes (symbols_property c) p \<Longrightarrow>
   snd (client_symbol_loop c (pre @ s # post)) =
     (case symbols_property c s of
        None \<Rightarrow> Some (KeyError s)
      | Some a \<Rightarrow> if \<not> tradable a then Some (NotTradableError s)
                  else if status a \<noteq> ACTIVE then Some (InactiveSymbolError s)
                  else snd (client_symbol_loop c post))"
  by (induction pre) (auto simp: passes_def check_symbol_data_def split: option.splits prod.splits)

text \<open>
  With the attribute set to a dictionary, the loop of the fetcher and the asset-class step
  do what their docstring says.
\<close>

lemma fetcher_loop_passes:
  "AlpacaClient__symbols c = Some cat \<Longrightarrow> \<forall>s\<in>set ss. passes cat s \<Longrightarrow>
   snd (fetcher_symbol_loop c ss) = None"
  by (induction ss) (auto simp: passes_def check_symbol_data_def split: option.splits prod.splits)

lemma fetcher_loop_first_failure:
  "AlpacaClient__symbols c = Some cat \<Longrightarrow> \<forall>p\<in>set pre. passes cat p \<Longrightarrow>
   snd (fetcher_symbol_loop c (pre @ s # post)) =
     (case cat s of
        None \<Rightarrow> Some (UnknownSymbolError s)
      | Some a \<Rightarrow> if \<not> tradable a then Some (NotTradableError s)
                  else if status a \<noteq> ACTIVE then Some (InactiveSymbolError s)
                  else snd (fetcher_symbol_loop c post))"
  by (induction pre) (auto simp: passes_def check_symbol_data_def split: option.splits prod.splits)

lemma asset_classes_of_passes:
  "AlpacaClient__symbols c = Some cat \<Longrightarrow> \<forall>s\<in>set ss. passes cat s \<Longrightarrow>
   asset_classes_of c ss = Inr (map (\<lambda>s. the (class_of cat s)) ss)"
  by (induction ss) (auto simp: passes_def class_of_def split: option.splits)

lemma remdups_all_equal: "xs \<noteq> [] \<Longrightarrow> set xs \<subseteq> {c} \<Longrightarrow> remdups xs = [c]"
proof (induction xs)
  case Nil
  then show ?case by simp
next
  case (Cons x xs)
  have x: "x = c" using Cons.prems(2) by simp
  show ?case
  proof (cases "xs = []")
    case True
    then show ?thesis by (simp add: x)
  next
    case False
    have sub: "set xs \<subseteq> {c}" using Cons.prems(2) by simp
    have "set xs = {c}" using False sub by (cases xs) auto
    then have "x \<in> set xs" by (simp add: x)
    then show ?thesis using Cons.IH [OF False sub] by simp
  qed
qed

lemma remdups_two_values: "a \<in> set xs \<Longrightarrow> b \<in> set xs \<Longrightarrow> a \<noteq> b \<Longrightarrow> remdups xs \<noteq> [c]"
proof
  assume h: "a \<in> set xs" "b \<in> set xs" "a \<noteq> b" "remdups xs = [c]"
  have "set xs = set (remdups xs)" by simp
  also have "\<dots> = {c}" using h(4) by simp
  finally show False using h(1-3) by auto
qed

lemma common_asset_class_one:
  assumes "AlpacaClient__symbols c = Some cat" "symbols \<noteq> []" "\<forall>s\<in>set symbols. passes cat s"
    "\<forall>s\<in>set symbols. class_of cat s = Some cls"
  shows "common_asset_class c symbols = Inr cls"
proof -
  have "remdups (map (\<lambda>s. the (class_of cat s)) symbols) = [cls]"
    using assms(2,4) by (intro remdups_all_equal) auto
  then show ?thesis
    by (simp add: common_asset_class_def asset_classes_of_passes [OF assms(1,3)])
qed

lemma common_asset_class_mixed:
  assumes "AlpacaClient__symbols c = Some cat" "\<forall>s\<in>set symbols. passes cat s"
    "s \<in> set symbols" "t \<in> set symbols" "class_of cat s \<noteq> class_of cat t"
  shows "common_asset_class c symbols = Inl MixedAssetClassError"
proof -
  let ?cs = "map (\<lambda>s. the (class_of cat s)) symbols"
  have known: "\<And>u. u \<in> set symbols \<Longrightarrow> class_of cat u \<noteq> None"
    using assms(2) by (auto simp: passes_def class_of_def split: option.splits)
  have "the (class_of cat s) \<noteq> the (class_of cat t)"
    using known [OF assms(3)] known [OF assms(4)] assms(5) by auto
  moreover have "the (class_of cat s) \<in> set ?cs" "the (class_of cat t) \<in> set ?cs"
    using assms(3,4) by auto
  ultimately have "\<And>x. remdups ?cs \<noteq> [x]"
    using remdups_two_values by metis
  then show ?thesis
    by (auto simp: common_asset_class_def asset_classes_of_passes [OF assms(1,2)] split: list.splits)
qed

lemma validate_symbols_passes:
  assumes "AlpacaClient__symbols c = Some cat"
    "symbols \<noteq> []" "distinct symbols" "\<forall>s\<in>set symbols. passes cat s"
  shows "snd (validate_symbols c symbols) = common_asset_class c symbols"
  using assms fetcher_loop_passes [OF assms(1,4)]
  by (auto simp: validate_symbols_def duplicate_symbols_distinct split: prod.splits option.splits)

lemma validate_symbols_with_attribute:
  assumes "AlpacaClient__symbols c = Some cat"
    and "symbols \<noteq> []" and "distinct symbols" and "\<forall>s\<in>set symbols. passes cat s"
  shows "((\<forall>s\<in>set symbols. class_of cat s = Some cls) \<longrightarrow>
            snd (validate_symbols c symbols) = Inr cls) \<and>
         ((\<exists>s\<in>set symbols. \<exists>t\<in>set symbols. class_of cat s \<noteq> class_of cat t) \<longrightarrow>
            snd (validate_symbols c symbols) = Inl MixedAssetClassError)"
  using validate_symbols_passes [OF assms] common_asset_class_one [OF assms(1,2,4)]
    common_asset_class_mixed [OF assms(1,4)]
  by auto

lemma validate_symbols_first_offender_with_attribute:
  assumes "AlpacaClient__symbols c = Some cat"
    and "distinct (pre @ s # post)" and "\<forall>p\<in>set pre. passes cat p"
  shows "(cat s = None \<longrightarrow>
            snd (validate_symbols c (pre @ s # post)) = Inl (UnknownSymbolError s)) \<and>
         (\<forall>a. cat s = Some a \<and> \<not> tradable a \<longrightarrow>
            snd (validate_symbols c (pre @ s # post)) = Inl (NotTradableError s)) \<and>
         (\<forall>a. cat s = Some a \<and> tradable a \<and> status a \<noteq> ACTIVE \<longrightarrow>
            snd (validate_symbols c (pre @ s # post)) = Inl (InactiveSymbolError s))"
  using fetcher_loop_first_failure [OF assms(1,3), of s post]
    duplicate_symbols_distinct [OF assms(2)]
  by (auto simp: validate_symbols_def split: prod.splits option.splits)

lemma client_validate_symbols_first_offender:
  assumes "distinct (pre @ s # post)" and "\<forall>p\<in>set pre. passes (symbols_property c) p"
  shows "(symbols_property c s = None \<longrightarrow>
            snd (client_validate_symbols c (pre @ s # post)) = Inl (KeyError s)) \<and>
         (\<forall>a. symbols_property c s = Some a \<and> \<not> tradable a \<longrightarrow>
            snd (client_validate_symbols c (pre @ s # post)) = Inl (NotTradableError s)) \<and>
         (\<forall>a. symbols_property c s = Some a \<and> tradable a \<and> status a \<noteq> ACTIVE \<longrightarrow>
            snd (client_validate_symbols c (pre @ s # post)) = Inl (InactiveSymbolError s))"
  using client_loop_first_failure [OF assms(2), of s post]
    duplicate_symbols_distinct [OF assms(1)]
  by (auto simp: client_validate_symbols_def split: prod.splits option.splits)

lemma demo_passes:
  "passes demo_catalog ''AAPL''" "passes demo_catalog ''MSFT''" "passes demo_catalog ''BTC/USD''"
  "\<not> passes demo_catalog ''LEHMQ''"
  by (simp_all add: passes_def demo_catalog_def equity_asset_def crypto_asset_def delisted_asset_def)

lemma demo_classes:
  "class_of demo_catalog ''AAPL'' = Some US_EQUITY" "class_of demo_catalog ''MSFT'' = Some US_EQUITY"
  "class_of demo_catalog ''BTC/USD'' = Some CRYPTO"
  by (simp_all add: class_of_def demo_catalog_def equity_asset_def crypto_asset_def delisted_asset_def)

text \<open>
  Claim C1 at an instance of the shipped client class. The two requested symbols are known,
  tradable, active equities, and both validators raise \<open>AttributeError\<close> instead of
  returning the asset class; for an equity and a crypto symbol they raise it instead of the
  mixed-asset-class error.
\<close>

theorem shipped_client_validation_raises_AttributeError:
  "passes demo_catalog ''AAPL'' \<and> passes demo_catalog ''MSFT'' \<and>
   class_of demo_catalog ''AAPL'' = Some US_EQUITY \<and>
   class_of demo_catalog ''MSFT'' = Some US_EQUITY \<and>
   snd (validate_symbols (AlpacaClient demo_catalog) [''AAPL'', ''MSFT'']) = Inl AttributeError \<and>
   snd (client_validate_symbols (AlpacaClient demo_catalog) [''AAPL'', ''MSFT'']) = Inl AttributeError \<and>
   passes demo_catalog ''BTC/USD'' \<and> class_of demo_catalog ''BTC/USD'' = Some CRYPTO \<and>
   snd (validate_symbols (AlpacaClient demo_catalog) [''AAPL'', ''BTC/USD'']) = Inl AttributeError \<and>
   snd (client_validate_symbols (AlpacaClient demo_catalog) [''AAPL'', ''BTC/USD'']) = Inl AttributeError"
proof -
  have "snd (client_validate_symbols (AlpacaClient demo_catalog) [''AAPL'', ''MSFT'']) = Inl AttributeError"
    by (rule client_validate_symbols_without_attribute) (simp_all add: demo_passes)
  moreover have "snd (client_validate_symbols (AlpacaClient demo_catalog) [''AAPL'', ''BTC/USD'']) =
      Inl AttributeError"
    by (rule client_validate_symbols_without_attribute) (simp_all add: demo_passes)
  ultimately show ?thesis
    by (simp add: demo_passes demo_classes validate_symbols_without_attribute)
qed

text \<open>
  Claim C2 at a symbol that is absent from the catalog. \<open>AlpacaDataClient._validate_symbols\<close>
  raises \<open>KeyError\<close> from the subscript, before the \<open>is None\<close> test that would report the
  symbol as unknown, whether or not the attribute read later exists; on an instance of the
  shipped client class \<open>AlpacaDataFetcher._validate_symbols\<close> raises \<open>AttributeError\<close>.
\<close>

theorem absent_symbol_not_reported_unknown:
  "demo_catalog ''ZZZZ'' = None \<and>
   snd (client_validate_symbols (AlpacaClient demo_catalog) [''ZZZZ'']) = Inl (KeyError ''ZZZZ'') \<and>
   snd (client_validate_symbols (client_with_attribute demo_catalog) [''ZZZZ'']) =
     Inl (KeyError ''ZZZZ'') \<and>
   snd (validate_symbols (AlpacaClient demo_catalog) [''ZZZZ'']) = Inl AttributeError"
  by (simp add: client_validate_symbols_def validate_symbols_def duplicate_symbols_def
      demo_catalog_def AlpacaClient_def client_with_attribute_def)

text \<open>
  With the attribute set, \<open>AlpacaDataFetcher._validate_symbols\<close> returns the common class,
  reports a mixed list, and reports an absent symbol as unknown.
\<close>

lemma validate_symbols_with_attribute_demo:
  "snd (validate_symbols (client_with_attribute demo_catalog) [''AAPL'', ''MSFT'']) = Inr US_EQUITY \<and>
   snd (validate_symbols (client_with_attribute demo_catalog) [''AAPL'', ''BTC/USD'']) =
     Inl MixedAssetClassError \<and>
   snd (validate_symbols (client_with_attribute demo_catalog) [''AAPL'', ''ZZZZ'']) =
     Inl (UnknownSymbolError ''ZZZZ'')"
  by code_simp

section \<open>Properties of the pipeline\<close>


lemma process_session_missing:
  assumes "downloader e dt ac symbols res mo mc = Some raw"
    and "missing_symbols raw symbols \<noteq> {}"
  shows "process_session e tgt dt symbols ac res st (mo, mc) =
           (Some (MissingSymbolDataError (missing_symbols raw symbols)),
            st\<lparr>trace := trace st @ [Fetched mo mc]\<rparr>)"
  using assms by (simp add: process_session_def download_raw_dataset_def Let_def)

lemma write_to_hdf5_errors:
  "write_to_hdf5 s d md n = (Some err, s') \<Longrightarrow> err = IncompatibleAppendError \<and> s' = s"
  by (auto simp: write_to_hdf5_def split: option.splits if_splits)

lemma process_session_errors:
  assumes "process_session e tgt dt symbols ac res st sess = (Some err, st')"
  shows "(\<exists>a b. err = NoDataError a b) \<or> (\<exists>m. err = MissingSymbolDataError m) \<or>
         err = ReindexError \<or> err = IncompatibleAppendError"
proof (cases "download_raw_dataset e dt symbols ac res (fst sess) (snd sess)")
  case (Inl x)
  then show ?thesis using assms
    by (auto simp: process_session_def download_raw_dataset_def Let_def split: option.splits)
next
  case (Inr raw)
  show ?thesis
  proof (cases "missing_symbols raw symbols \<noteq> {}")
    case True
    then show ?thesis using assms Inr by (auto simp: process_session_def Let_def)
  next
    case False
    show ?thesis
    proof (cases "reindex_product symbols raw")
      case (Inl x)
      then have "x = ReindexError" by (auto simp: reindex_product_def split: if_splits)
      then show ?thesis using assms Inr False Inl by (auto simp: process_session_def Let_def)
    next
      case rows: (Inr rows)
      show ?thesis using assms Inr False rows
        by (auto simp: process_session_def Let_def split: prod.splits option.splits
            dest: write_to_hdf5_errors)
    qed
  qed
qed



lemma demo_downloader: "downloader demo_env dt ac symbols res mo mc = Some demo_raw"
  by (simp add: demo_env_def)




text \<open>
  Claim C9. The check compares the symmetric difference of the returned and the requested
  symbol sets, so a session whose data holds a record of a symbol that was not requested
  fails with the missing-symbol error, whether or not every requested symbol is present.
\<close>

theorem unrequested_symbol_fails_session:
  assumes "downloader e dt ac symbols res mo mc = Some raw"
    and "((s, t), v) \<in> set raw" and "s \<notin> set symbols"
  shows "fst (process_session e tgt dt symbols ac res st (mo, mc)) =
           Some (MissingSymbolDataError (missing_symbols raw symbols)) \<and>
         s \<in> missing_symbols raw symbols"
proof -
  have "s \<in> set (dataset_symbols raw)"
    using assms(2) by (force simp: dataset_symbols_def)
  then have "s \<in> missing_symbols raw symbols"
    using assms(3) by (simp add: missing_symbols_def)
  then have mem: "s \<in> missing_symbols raw symbols" .
  then have ne: "missing_symbols raw symbols \<noteq> {}" by auto
  show ?thesis using process_session_missing [OF assms(1) ne] mem by simp
qed

text \<open>
  Claim C9 at a request whose only symbol is present in the returned data.
\<close>

theorem unrequested_symbol_fails_session_witness:
  "set [''MSFT''] \<subseteq> set (dataset_symbols demo_raw) \<and>
   fst (process_session demo_env ''ds'' BAR [''MSFT''] US_EQUITY ''1Min'' empty_state (0, 3)) =
     Some (MissingSymbolDataError (missing_symbols demo_raw [''MSFT''])) \<and>
   ''AAPL'' \<in> missing_symbols demo_raw [''MSFT'']"
  using unrequested_symbol_fails_session [where e = demo_env and dt = BAR and ac = US_EQUITY
      and symbols = "[''MSFT'']" and res = "''1Min''" and mo = 0 and mc = 3 and raw = demo_raw
      and s = "''AAPL''" and t = 1 and v = 20 and tgt = "''ds''" and st = empty_state,
      OF demo_downloader]
  by (simp add: demo_raw_def dataset_symbols_def)

lemma session_loop_errors:
  "session_loop e tgt dt symbols ac res st schedule = (Some err, st') \<Longrightarrow>
   \<not> is_validation_error err"
proof (induction schedule arbitrary: st)
  case Nil
  then show ?case by simp
next
  case (Cons session rest)
  show ?case
  proof (cases "process_session e tgt dt symbols ac res st session")
    case (Pair r st1)
    show ?thesis
    proof (cases r)
      case None
      then show ?thesis using Cons Pair by simp
    next
      case (Some err1)
      then have "err = err1" using Cons.prems Pair by simp
      then show ?thesis using process_session_errors [of e tgt dt symbols ac res st session err1 st1]
          Pair Some by auto
    qed
  qed
qed

lemma no_fetch_in_warnings: "filter is_fetch (map Warned ws) = []"
  by (induction ws) auto

lemma no_write_in_warnings: "filter is_write (map Warned ws) = []"
  by (induction ws) auto

text \<open>
  Claim C6. When \<open>download_features_to_hdf5\<close> ends with an input-validation failure, no
  provider call and no write was issued, and the store and the density statistic are as
  they were before the call.
\<close>

theorem validation_errors_precede_fetch:
  assumes "download_features_to_hdf5 e st file_path tgt dt symbols res start_date end_date = (Inl err, st')"
    and "is_validation_error err"
  shows "filter is_fetch (trace st') = filter is_fetch (trace st) \<and>
         filter is_write (trace st') = filter is_write (trace st) \<and>
         store st' = store st \<and> density st' = density st"
  using assms
  by (auto simp: download_features_to_hdf5_def Let_def no_fetch_in_warnings no_write_in_warnings
      split: if_splits prod.splits sum.splits option.splits dest: session_loop_errors)

text \<open>
  Claim C10. Every run of \<open>download_features_to_hdf5\<close> that completes returns \<open>None\<close>,
  never a metadata record.
\<close>

theorem download_returns_None:
  assumes "download_features_to_hdf5 e st file_path tgt dt symbols res start_date end_date = (Inr r, st')"
  shows "r = None"
  using assms
  by (auto simp: download_features_to_hdf5_def Let_def
      split: if_splits prod.splits sum.splits option.splits)

text \<open>
  Claim C6 at a run refused for its resolution: no provider call, and the store untouched.
\<close>

theorem validation_errors_precede_fetch_witness:
  "fst (download_features_to_hdf5 demo_env empty_state ''f.h5'' ''ds'' BAR [''MSFT'', ''AAPL'']
          ''2Min'' 0 0) = Inl InvalidResolutionError \<and>
   filter is_fetch (trace (snd (download_features_to_hdf5 demo_env empty_state ''f.h5'' ''ds'' BAR
          [''MSFT'', ''AAPL''] ''2Min'' 0 0))) = [] \<and>
   store (snd (download_features_to_hdf5 demo_env empty_state ''f.h5'' ''ds'' BAR
          [''MSFT'', ''AAPL''] ''2Min'' 0 0)) = store empty_state"
proof -
  let ?run = "download_features_to_hdf5 demo_env empty_state ''f.h5'' ''ds'' BAR
          [''MSFT'', ''AAPL''] ''2Min'' 0 0"
  have r: "fst ?run = Inl InvalidResolutionError" by code_simp
  then have "?run = (Inl InvalidResolutionError, snd ?run)" by (simp add: prod_eq_iff)
  from validation_errors_precede_fetch [OF this] r show ?thesis
    by (simp add: empty_state_def)
qed

text \<open>
  Claim C10 at a run that completes.
\<close>

theorem download_returns_None_witness:
  "fst (download_features_to_hdf5 demo_env empty_state ''f.h5'' ''ds'' BAR [''MSFT'', ''AAPL'']
          ''1Min'' 0 0) = Inr None"
proof -
  let ?run = "download_features_to_hdf5 demo_env empty_state ''f.h5'' ''ds'' BAR
          [''MSFT'', ''AAPL''] ''1Min'' 0 0"
  have "\<not> isl (fst ?run)" by code_simp
  then obtain r where r: "fst ?run = Inr r" by (cases "fst ?run") auto
  then have "?run = (Inr r, snd ?run)" by (simp add: prod_eq_iff)
  from download_returns_None [OF this] r show ?thesis by simp
qed


section \<open>Properties of session alignment\<close>

text \<open>
  The blocks of the aligned frame come in the sorted order of the symbols, whatever the
  order of the rows: \<open>groupby\<close> sorts its keys.
\<close>

lemma map_fst_aligned_frame:
  "map fst (aligned_frame rows mo mc res) = sort (remdups (map fst rows))"
  by (simp add: aligned_frame_def groupby_symbol_def comp_def case_prod_beta)

lemma aligned_frame_block_order:
  "map fst (aligned_frame rows mo mc res) = sorted_list_of_set (fst ` set rows)"
proof -
  have "fst ` set rows = set (map fst rows)" by simp
  then show ?thesis
    by (simp only: map_fst_aligned_frame sorted_list_of_set_sort_remdups)
qed

text \<open>
  Claim C3 at the request \<open>['MSFT', 'AAPL']\<close>: the metadata records the symbols in the
  caller's order, and the matrix holds the block of \<open>AAPL\<close> first (its first grid point is a
  missing value) and the block of \<open>MSFT\<close> second.
\<close>

theorem groupby_reorders_symbol_blocks:
  "map_option (\<lambda>d. (md_symbols (meta d), matrix d))
     (store (snd (download_features_to_hdf5 demo_env empty_state ''f.h5'' ''ds'' BAR
        [''MSFT'', ''AAPL''] ''1Min'' 0 0)) ''ds'') =
   Some ([''MSFT'', ''AAPL''], [[None, Some 10], [Some 20, Some 10], [Some 20, Some 11]])"
  by code_simp

text \<open>
  The grid of a session has \<open>\<lceil>(close - open) / resolution\<rceil>\<close> points.
\<close>

lemma filter_less_upt: "filter (\<lambda>k. k < m) [0 ..< n] = [0 ..< min m n]"
proof (induction n)
  case 0
  then show ?case by simp
next
  case (Suc n)
  show ?case
  proof (cases "n < m")
    case True
    then have "min m n = n" "min m (Suc n) = Suc n" by simp_all
    then show ?thesis using Suc True by simp
  next
    case False
    then have "min m n = m" "min m (Suc n) = m" by simp_all
    then show ?thesis using Suc False by simp
  qed
qed

lemma grid_point_below_close:
  assumes "0 < res"
  shows "mo + int k * int res < mc \<longleftrightarrow> k < nat \<lceil>real_of_int (mc - mo) / real res\<rceil>"
proof -
  have "mo + int k * int res < mc \<longleftrightarrow> int k * int res < mc - mo" by linarith
  also have "\<dots> \<longleftrightarrow> real_of_int (int k * int res) < real_of_int (mc - mo)"
    by (simp only: of_int_less_iff)
  also have "\<dots> \<longleftrightarrow> real_of_int (int k) * real res < real_of_int (mc - mo)" by simp
  also have "\<dots> \<longleftrightarrow> real_of_int (int k) < real_of_int (mc - mo) / real res"
    using assms by (simp add: pos_less_divide_eq)
  also have "\<dots> \<longleftrightarrow> int k < \<lceil>real_of_int (mc - mo) / real res\<rceil>"
    by (simp only: less_ceiling_iff)
  also have "\<dots> \<longleftrightarrow> k < nat \<lceil>real_of_int (mc - mo) / real res\<rceil>"
    by (simp only: zless_nat_eq_int_zless)
  finally show ?thesis .
qed

lemma grid_size_bound:
  assumes "0 < res"
  shows "nat \<lceil>real_of_int (mc - mo) / real res\<rceil> \<le> nat (mc - mo)"
proof (cases "mo \<le> mc")
  case True
  have "real_of_int (mc - mo) / real res \<le> real_of_int (mc - mo)"
    using assms True by (simp add: divide_le_eq mult_le_cancel_left1)
  then have "\<lceil>real_of_int (mc - mo) / real res\<rceil> \<le> \<lceil>real_of_int (mc - mo)\<rceil>"
    by (rule ceiling_mono)
  then have "\<lceil>real_of_int (mc - mo) / real res\<rceil> \<le> mc - mo"
    by (simp only: ceiling_of_int)
  then show ?thesis by (rule nat_mono)
next
  case False
  then have "real_of_int (mc - mo) / real res \<le> 0"
    using assms by (simp add: divide_le_0_iff)
  then have "\<lceil>real_of_int (mc - mo) / real res\<rceil> \<le> 0" by (simp only: ceiling_le_zero of_int_0)
  then have "nat \<lceil>real_of_int (mc - mo) / real res\<rceil> = 0" by (simp only: nat_le_0)
  then show ?thesis by simp
qed

lemma session_grid_length:
  assumes "0 < res"
  shows "length (session_grid mo mc res) = nat \<lceil>real_of_int (mc - mo) / real res\<rceil>"
proof -
  have "filter (\<lambda>k. mo + int k * int res < mc) [0 ..< nat (mc - mo)] =
        [0 ..< nat \<lceil>real_of_int (mc - mo) / real res\<rceil>]"
    using grid_size_bound [OF assms, of mc mo]
    by (simp add: grid_point_below_close [OF assms] filter_less_upt min_def)
  then show ?thesis by (simp add: session_grid_def)
qed

lemma length_ffill: "length (ffill c xs) = length xs"
  by (induction c xs rule: ffill.induct) auto

lemma ffill_leading_gap:
  "i < length xs \<Longrightarrow> (\<And>k. k \<le> i \<Longrightarrow> xs ! k = None) \<Longrightarrow> ffill c xs ! i = c"
proof (induction c xs arbitrary: i rule: ffill.induct)
  case (1 carried)
  then show ?case by simp
next
  case (2 carried xs)
  show ?case
  proof (cases i)
    case 0
    then show ?thesis by simp
  next
    case (Suc i')
    have "ffill carried xs ! i' = carried"
    proof (rule "2.IH")
      show "i' < length xs" using "2.prems"(1) Suc by simp
      fix k assume "k \<le> i'"
      then have "(None # xs) ! Suc k = None" using "2.prems"(2) [of "Suc k"] Suc by simp
      then show "xs ! k = None" by simp
    qed
    then show ?thesis using Suc by simp
  qed
next
  case (3 carried v xs)
  have "(Some v # xs) ! 0 = None" using "3.prems"(2) [of 0] by simp
  then show ?case by simp
qed

lemma ffill_most_recent:
  "i < length xs \<Longrightarrow> j \<le> i \<Longrightarrow> xs ! j = Some v \<Longrightarrow>
   (\<And>k. j < k \<Longrightarrow> k \<le> i \<Longrightarrow> xs ! k = None) \<Longrightarrow> ffill c xs ! i = Some v"
proof (induction xs arbitrary: c i j)
  case Nil
  then show ?case by simp
next
  case (Cons x xs)
  show ?case
  proof (cases j)
    case 0
    then have x: "x = Some v" using Cons.prems(3) by simp
    show ?thesis
    proof (cases i)
      case 0
      then show ?thesis by (simp add: x)
    next
      case (Suc i')
      have "ffill (Some v) xs ! i' = Some v"
      proof (rule ffill_leading_gap)
        show "i' < length xs" using Cons.prems(1) Suc by simp
        fix k assume "k \<le> i'"
        then have "(x # xs) ! Suc k = None" using Cons.prems(4) [of "Suc k"] \<open>j = 0\<close> Suc by simp
        then show "xs ! k = None" by simp
      qed
      then show ?thesis using Suc by (simp add: x)
    qed
  next
    case (Suc j')
    then obtain i' where i: "i = Suc i'" using Cons.prems(2) by (cases i) auto
    have step: "\<And>c'. ffill c' xs ! i' = Some v"
    proof (rule Cons.IH [where j = j'])
      show "i' < length xs" using Cons.prems(1) i by simp
      show "j' \<le> i'" using Cons.prems(2) Suc i by simp
      show "xs ! j' = Some v" using Cons.prems(3) Suc by simp
      fix k assume "j' < k" "k \<le> i'"
      then have "(x # xs) ! Suc k = None" using Cons.prems(4) [of "Suc k"] Suc i by simp
      then show "xs ! k = None" by simp
    qed
    show ?thesis using step i by (cases x) simp_all
  qed
qed

text \<open>
  Claim C4. The aligned column of a symbol has one cell per grid point. A grid point takes
  the most recent observation of the symbol at or before it in the session (so a grid
  point with no observation is filled with the most recent prior value), and a grid point
  with no observation at or before it stays a missing value.
\<close>

theorem forward_fill_most_recent_prior:
  assumes "i < length (session_grid mo mc res)"
  shows "length (reindex_and_forward_fill grp mo mc res) = length (session_grid mo mc res) \<and>
         (\<forall>j v. j \<le> i \<and> observation grp (session_grid mo mc res ! j) = Some v \<and>
                 (\<forall>k. j < k \<and> k \<le> i \<longrightarrow> observation grp (session_grid mo mc res ! k) = None)
            \<longrightarrow> reindex_and_forward_fill grp mo mc res ! i = Some v) \<and>
         ((\<forall>k. k \<le> i \<longrightarrow> observation grp (session_grid mo mc res ! k) = None)
            \<longrightarrow> reindex_and_forward_fill grp mo mc res ! i = None)"
proof -
  let ?g = "session_grid mo mc res"
  let ?xs = "map (observation grp) ?g"
  have len: "i < length ?xs" using assms by simp
  have nth: "\<And>k. k \<le> i \<Longrightarrow> ?xs ! k = observation grp (?g ! k)"
    using assms by simp
  have a: "length (reindex_and_forward_fill grp mo mc res) = length ?g"
    by (simp add: reindex_and_forward_fill_def length_ffill)
  have b: "reindex_and_forward_fill grp mo mc res ! i = Some v"
    if "j \<le> i" "observation grp (?g ! j) = Some v"
      "\<forall>k. j < k \<and> k \<le> i \<longrightarrow> observation grp (?g ! k) = None" for j v
    unfolding reindex_and_forward_fill_def
  proof (rule ffill_most_recent [OF len that(1)])
    show "?xs ! j = Some v" using that(1,2) nth by simp
    fix k assume "j < k" "k \<le> i"
    then show "?xs ! k = None" using that(3) nth by simp
  qed
  have c: "reindex_and_forward_fill grp mo mc res ! i = None"
    if "\<forall>k. k \<le> i \<longrightarrow> observation grp (?g ! k) = None"
    unfolding reindex_and_forward_fill_def
  proof (rule ffill_leading_gap [OF len])
    fix k assume "k \<le> i"
    then show "?xs ! k = None" using that nth by simp
  qed
  show ?thesis using a b c by blast
qed

text \<open>
  Every block of the aligned frame has one cell per grid point.
\<close>

lemma aligned_frame_rows:
  "b \<in> set (aligned_frame rows mo mc res) \<Longrightarrow> length (snd b) = length (session_grid mo mc res)"
  by (auto simp: aligned_frame_def reindex_and_forward_fill_def length_ffill)

lemma demo_grid: "session_grid 0 20 5 = [0, 5, 10, 15]"
  by code_simp

lemma demo_observation: "observation [(5, Some (7::int))] t = (if t = 5 then Some 7 else None)"
  by (simp add: observation_def)

text \<open>
  Claim C4 on a session of four five-minute grid points with one observation, at the second
  grid point: the first cell stays missing and the last one carries the observation.
\<close>

theorem forward_fill_most_recent_prior_witness:
  "reindex_and_forward_fill [(5, Some (7::int))] 0 20 5 ! 0 = None \<and>
   reindex_and_forward_fill [(5, Some (7::int))] 0 20 5 ! 3 = Some 7 \<and>
   length (reindex_and_forward_fill [(5, Some (7::int))] 0 20 5) = 4"
proof -
  let ?grp = "[(5, Some (7::int))]"
  have i0: "0 < length (session_grid 0 20 5)" and i3: "3 < length (session_grid 0 20 5)"
    by (simp_all add: demo_grid)
  have gap: "\<forall>k. k \<le> 0 \<longrightarrow> observation ?grp (session_grid 0 20 5 ! k) = None"
    by (simp add: demo_grid demo_observation)
  have later: "\<forall>k. 1 < k \<and> k \<le> 3 \<longrightarrow> observation ?grp (session_grid 0 20 5 ! k) = None"
  proof (intro allI impI)
    fix k :: nat assume "1 < k \<and> k \<le> 3"
    then have "k = 2 \<or> k = 3" by arith
    then show "observation ?grp (session_grid 0 20 5 ! k) = None"
      by (auto simp: demo_grid demo_observation)
  qed
  have seen: "(1::nat) \<le> 3 \<and> observation ?grp (session_grid 0 20 5 ! 1) = Some 7"
    by (simp add: demo_grid demo_observation)
  have "reindex_and_forward_fill ?grp 0 20 5 ! 0 = None"
    using forward_fill_most_recent_prior [OF i0, of ?grp] gap by blast
  moreover have "reindex_and_forward_fill ?grp 0 20 5 ! 3 = Some 7"
    using forward_fill_most_recent_prior [OF i3, of ?grp] seen later by blast
  moreover have "length (reindex_and_forward_fill ?grp 0 20 5) = 4"
    using forward_fill_most_recent_prior [OF i3, of ?grp] by (simp add: demo_grid)
  ultimately show ?thesis by simp
qed

section \<open>Properties of the density statistic\<close>

text \<open>
  The tracker after a list of sessions holds the sums of their observed and total cells.
\<close>

lemma fold_update_density:
  "fold (\<lambda>c. update_density (fst c) (snd c)) cs d =
     \<lparr>observed_cells = observed_cells d + sum_list (map fst cs),
      total_cells = total_cells d + sum_list (map snd cs)\<rparr>"
  by (induction cs arbitrary: d) (simp_all add: update_density_def add.assoc)

lemma density_in_unit_interval:
  "observed_cells d \<le> total_cells d \<Longrightarrow>
   0 \<le> running_dataset_density d \<and> running_dataset_density d \<le> 1"
  by (auto simp: running_dataset_density_def divide_le_eq_1)

text \<open>
  Claim C8. Each session contributes its observed cells and its total cells, the first at
  most the second. After every processed session (every prefix of the run) the running
  density lies within \<open>[0, 1]\<close> and is the quotient of the cumulative observed cells by the
  cumulative total cells.
\<close>

theorem running_density_bounds:
  assumes "\<forall>c\<in>set sessions. fst c \<le> snd c"
  shows "0 \<le> running_dataset_density
              (fold (\<lambda>c. update_density (fst c) (snd c)) (take n sessions) empty_tracker) \<and>
         running_dataset_density
              (fold (\<lambda>c. update_density (fst c) (snd c)) (take n sessions) empty_tracker) \<le> 1 \<and>
         running_dataset_density
              (fold (\<lambda>c. update_density (fst c) (snd c)) (take n sessions) empty_tracker) =
           real (sum_list (map fst (take n sessions))) / real (sum_list (map snd (take n sessions)))"
proof -
  let ?d = "fold (\<lambda>c. update_density (fst c) (snd c)) (take n sessions) empty_tracker"
  have cells: "observed_cells ?d = sum_list (map fst (take n sessions))"
    "total_cells ?d = sum_list (map snd (take n sessions))"
    by (simp_all add: fold_update_density empty_tracker_def)
  have "\<And>c. c \<in> set (take n sessions) \<Longrightarrow> fst c \<le> snd c"
    using assms by (auto dest: in_set_takeD)
  then have "sum_list (map fst (take n sessions)) \<le> sum_list (map snd (take n sessions))"
    by (rule sum_list_mono)
  then have "observed_cells ?d \<le> total_cells ?d" by (simp add: cells)
  from density_in_unit_interval [OF this] show ?thesis
    by (simp add: running_dataset_density_def cells)
qed

text \<open>
  Claim C8 on two sessions with densities \<open>1/2\<close> and \<open>0\<close>: the running density after the
  second is \<open>1/10\<close>, not the average \<open>1/4\<close> of the two.
\<close>

theorem running_density_bounds_witness:
  "running_dataset_density
     (fold (\<lambda>c. update_density (fst c) (snd c)) (take 1 [(1, 2), (0, 8)]) empty_tracker) = 1 / 2 \<and>
   running_dataset_density
     (fold (\<lambda>c. update_density (fst c) (snd c)) (take 2 [(1, 2), (0, 8)]) empty_tracker) = 1 / 10 \<and>
   (1 / 2 + 0 / 8) / 2 \<noteq> (1 / 10 :: real)"
  using running_density_bounds [of "[(1, 2), (0, 8)]" 1]
    running_density_bounds [of "[(1, 2), (0, 8)]" 2]
  by simp

text \<open>
  In the pipeline the observed cells of a group never exceed its grid cells, so the density
  stays within \<open>[0, 1]\<close> after every session of a run.
\<close>

lemma observed_cells_le_grid:
  "observed_cells_of grp mo mc res \<le> length (session_grid mo mc res)"
  unfolding observed_cells_of_def
  by (rule order_trans [OF length_filter_le]) simp

lemma fold_groups_density:
  "observed_cells d \<le> total_cells d \<Longrightarrow>
   observed_cells (fold (\<lambda>g. update_density (observed_cells_of (snd g) mo mc res)
        (length (session_grid mo mc res))) groups d)
   \<le> total_cells (fold (\<lambda>g. update_density (observed_cells_of (snd g) mo mc res)
        (length (session_grid mo mc res))) groups d)"
proof (induction groups arbitrary: d)
  case Nil
  then show ?case by simp
next
  case (Cons g groups)
  have "observed_cells (update_density (observed_cells_of (snd g) mo mc res)
            (length (session_grid mo mc res)) d)
        \<le> total_cells (update_density (observed_cells_of (snd g) mo mc res)
            (length (session_grid mo mc res)) d)"
    using Cons.prems observed_cells_le_grid [of "snd g" mo mc res]
    by (simp add: update_density_def)
  from Cons.IH [OF this] show ?case by simp
qed

lemma process_session_density:
  assumes "process_session e tgt dt symbols ac res st sess = (r, st')"
    and "observed_cells (density st) \<le> total_cells (density st)"
  shows "observed_cells (density st') \<le> total_cells (density st')"
proof (cases "download_raw_dataset e dt symbols ac res (fst sess) (snd sess)")
  case (Inl x)
  then show ?thesis using assms by (auto simp: process_session_def Let_def)
next
  case (Inr raw)
  show ?thesis
  proof (cases "missing_symbols raw symbols \<noteq> {}")
    case True
    then show ?thesis using assms Inr by (auto simp: process_session_def Let_def)
  next
    case False
    show ?thesis
    proof (cases "reindex_product symbols raw")
      case (Inl x)
      then show ?thesis using assms Inr False by (auto simp: process_session_def Let_def)
    next
      case rows: (Inr rows)
      show ?thesis using assms(1) Inr False rows
          fold_groups_density [OF assms(2), of "fst sess" "snd sess" "resolution_minutes res"
            "groupby_symbol rows"]
        by (auto simp: process_session_def Let_def split: prod.splits option.splits)
    qed
  qed
qed

lemma session_loop_density:
  "session_loop e tgt dt symbols ac res st schedule = (r, st') \<Longrightarrow>
   observed_cells (density st) \<le> total_cells (density st) \<Longrightarrow>
   0 \<le> running_dataset_density (density st') \<and> running_dataset_density (density st') \<le> 1"
proof (induction schedule arbitrary: st)
  case Nil
  then show ?case using density_in_unit_interval by simp
next
  case (Cons session rest)
  obtain r1 st1 where p: "process_session e tgt dt symbols ac res st session = (r1, st1)"
    by (cases "process_session e tgt dt symbols ac res st session")
  have inv: "observed_cells (density st1) \<le> total_cells (density st1)"
    using process_session_density [OF p Cons.prems(2)] .
  show ?case
  proof (cases r1)
    case None
    then show ?thesis using Cons.IH [OF _ inv] Cons.prems(1) p by simp
  next
    case (Some err)
    then have "st' = st1" using Cons.prems(1) p by simp
    then show ?thesis using density_in_unit_interval [OF inv] by simp
  qed
qed

end
